theory Spec2Isabelle
  imports Main "HOL-Library.Multiset" "HOL-Library.Sublist"
begin

section \<open>FillPDF: the FDF encoder and the form filler\<close>

text \<open>
  The repository holds two Go files of package fillpdf. Both define \<open>Form\<close>,
  \<open>Fill\<close>, \<open>createFdfFile\<close>, \<open>fdfHeader\<close> and \<open>fdfFooter\<close>:
  \<^item> \<open>src/fillpdf.go\<close> stages the FDF data in a temporary directory; its definitions keep
    the source's names here;
  \<^item> \<open>src/unnamed/part_000\<close> pipes the FDF data through standard input and adds
    \<open>FillFromReader\<close> and \<open>exists\<close>; where a name is taken already, its definitions
    carry the suffix \<open>_part0\<close>.
\<close>

subsection \<open>Form values\<close>

text \<open>
  \<open>type Form map[string]interface{}\<close>. The encoder's type switch tells three kinds of
  dynamic value apart: \<open>bool\<close>, \<open>float64\<close>, and everything else. A Go string is among
  the latter and is kept as a constructor of its own, since \<open>%v\<close> prints a string as it is.
  The type \<open>'f\<close> stands for float64 and \<open>'o\<close> for every other dynamic type.
\<close>

datatype ('f, 'o) val =
    VBool bool
  | VFloat64 'f
  | VString string
  | VOther 'o

type_synonym ('f, 'o) Form = "string \<rightharpoonup> ('f, 'o) val"

text \<open>
  The two formatting functions of the Go standard library that the encoder calls on values
  it does not print itself: \<open>strconv.FormatFloat(v, 'f', -1, 64)\<close> and
  \<open>fmt.Sprintf("%v", value)\<close>. They are parameters of the model.
\<close>

record ('f, 'o) go_lib =
  FormatFloat :: "'f \<Rightarrow> string"
  Sprintf_v :: "'o \<Rightarrow> string"

text \<open>
  \<open>for key, value := range form\<close> visits every key of the map once, in an order Go leaves
  unspecified. \<open>visits form kvs\<close> says that \<open>kvs\<close> is one such sequence of visited
  (key, value) pairs; the encoders take the sequence as their argument.
\<close>

definition visits :: "('f, 'o) Form \<Rightarrow> (string \<times> ('f, 'o) val) list \<Rightarrow> bool" where
  "visits form kvs \<longleftrightarrow> distinct (map fst kvs) \<and> map_of kvs = form"

subsection \<open>The FDF encoder\<close>

text \<open>The constants of \<open>src/fillpdf.go\<close> (lines 136-150).\<close>

definition fdfHeader :: string where
  "fdfHeader = ''%FDF-1.2\<newline>%,,oe\"\<newline>1 0 obj\<newline><<\<newline>/FDF << /Fields [''"

definition fdfFooter :: string where
  "fdfFooter = '']\<newline>>>\<newline>>>\<newline>endobj\<newline>trailer\<newline><<\<newline>/Root 1 0 R\<newline>>>\<newline>%%EOF''"

text \<open>The constants of \<open>src/unnamed/part_000\<close> (lines 149-163): every line after the
  first starts with a space.\<close>

definition fdfHeader_part0 :: string where
  "fdfHeader_part0 = ''%FDF-1.2\<newline> %,,oe\"\<newline> 1 0 obj\<newline> <<\<newline> /FDF << /Fields [''"

definition fdfFooter_part0 :: string where
  "fdfFooter_part0 = '']\<newline> >>\<newline> >>\<newline> endobj\<newline> trailer\<newline> <<\<newline> /Root 1 0 R\<newline> >>\<newline> %%EOF''"

text \<open>The type switch of the loop body: the text that goes into \<open>valStr\<close>.\<close>

fun valStr :: "('f, 'o) go_lib \<Rightarrow> ('f, 'o) val \<Rightarrow> string" where
  "valStr L (VBool v) = (if v then ''Yes'' else ''Off'')"
| "valStr L (VFloat64 v) = FormatFloat L v"
| "valStr L (VString s) = s"
| "valStr L (VOther x) = Sprintf_v L x"

text \<open>\<open>fmt.Fprintf(w, "<< /T (%s) /V (%s)>>\n", key, valStr)\<close>: the bytes one iteration
  appends.\<close>

definition fieldEntry :: "string \<Rightarrow> string \<Rightarrow> string" where
  "fieldEntry key vs = ''<< /T ('' @ key @ '') /V ('' @ vs @ '')>>\<newline>''"

text \<open>\<open>fmt.Fprintln(w, s)\<close> appends \<open>s\<close> and a newline.\<close>

definition Fprintln :: "string \<Rightarrow> string \<Rightarrow> string" where
  "Fprintln w s = w @ s @ ''\<newline>''"

text \<open>The loop over the form: \<open>w\<close> is the buffer written so far.\<close>

fun writeFields :: "('f, 'o) go_lib \<Rightarrow> (string \<times> ('f, 'o) val) list \<Rightarrow> string \<Rightarrow> string" where
  "writeFields L [] w = w"
| "writeFields L ((key, v) # rest) w = writeFields L rest (w @ fieldEntry key (valStr L v))"

text \<open>\<open>createFdfFile\<close> of \<open>src/unnamed/part_000\<close>: it returns the bytes of the buffer.\<close>

definition createFdfFile_part0 :: "('f, 'o) go_lib \<Rightarrow> (string \<times> ('f, 'o) val) list \<Rightarrow> string" where
  "createFdfFile_part0 L form =
     (let w = [];
          w = Fprintln w fdfHeader_part0;
          w = writeFields L form w;
          w = Fprintln w fdfFooter_part0
      in w)"

text \<open>The bytes that \<open>createFdfFile\<close> of \<open>src/fillpdf.go\<close> hands to its buffered writer
  between \<open>bufio.NewWriter\<close> and \<open>w.Flush()\<close>.\<close>

definition fdfBytes :: "('f, 'o) go_lib \<Rightarrow> (string \<times> ('f, 'o) val) list \<Rightarrow> string" where
  "fdfBytes L form =
     (let w = [];
          w = Fprintln w fdfHeader;
          w = writeFields L form w;
          w = Fprintln w fdfFooter
      in w)"

subsection \<open>The operating system\<close>

text \<open>
  A Go error is modelled by its text (\<open>err.Error()\<close>): \<open>fmt.Errorf\<close> with \<open>%v\<close> only
  ever reads that text.
\<close>

type_synonym go_error = string

text \<open>
  \<open>exec.Cmd\<close>: the fields the two files set. \<open>exec.Command(name, arg...)\<close> fills
  \<open>Path\<close> and \<open>Args\<close> (with the name as \<open>Args[0]\<close>) and leaves \<open>Dir\<close> empty (the caller's
  current directory) and \<open>Stdin\<close> nil (the null device).
\<close>

record Cmd =
  Path :: string
  Args :: "string list"
  Dir :: string
  Stdin :: "string option"

definition exec_Command :: "string \<Rightarrow> string list \<Rightarrow> Cmd" where
  "exec_Command name arg = \<lparr>Path = name, Args = name # arg, Dir = [], Stdin = None\<rparr>"

text \<open>
  Every call that leaves the process is recorded, in order, with its arguments. The
  state that the fill operations thread through is the list of calls made so far.
\<close>

datatype call =
    Call_Abs string
  | Call_Stat string
  | Call_LookPath string
  | Call_TempDir string string
  | Call_CreateTemp string string
  | Call_Create string
  | Call_Write string string
  | Call_Close string
  | Call_RemoveAll string
  | Call_Remove string
  | Call_Run Cmd
  | Call_Log string

text \<open>
  What the operating system answers to each call. Every call happens at most once in one
  fill operation, so an answer per argument covers every run. \<open>clean_out\<close> is the pure
  function \<open>filepath.Clean\<close>.
\<close>

record os_env =
  abs_out :: "string \<Rightarrow> go_error + string"
  stat_out :: "string \<Rightarrow> go_error option"
  is_not_exist :: "go_error \<Rightarrow> bool"
  look_path_out :: "string \<Rightarrow> go_error + string"
  temp_dir_out :: "string \<Rightarrow> string \<Rightarrow> go_error + string"
  create_temp_out :: "string \<Rightarrow> string \<Rightarrow> go_error + string"
  create_out :: "string \<Rightarrow> go_error option"
  write_out :: "string \<Rightarrow> string \<Rightarrow> go_error option"
  remove_all_out :: "string \<Rightarrow> go_error option"
  remove_out :: "string \<Rightarrow> go_error option"
  run_out :: "Cmd \<Rightarrow> string \<times> go_error option"
  clean_out :: "string \<Rightarrow> string"

type_synonym 'a io = "call list \<Rightarrow> 'a \<times> call list"

definition filepath_Abs :: "os_env \<Rightarrow> string \<Rightarrow> (go_error + string) io" where
  "filepath_Abs E path tr = (abs_out E path, tr @ [Call_Abs path])"

definition os_Stat :: "os_env \<Rightarrow> string \<Rightarrow> (go_error option) io" where
  "os_Stat E path tr = (stat_out E path, tr @ [Call_Stat path])"

definition exec_LookPath :: "os_env \<Rightarrow> string \<Rightarrow> (go_error + string) io" where
  "exec_LookPath E file tr = (look_path_out E file, tr @ [Call_LookPath file])"

definition ioutil_TempDir :: "os_env \<Rightarrow> string \<Rightarrow> string \<Rightarrow> (go_error + string) io" where
  "ioutil_TempDir E dir pattern tr = (temp_dir_out E dir pattern, tr @ [Call_TempDir dir pattern])"

definition os_CreateTemp :: "os_env \<Rightarrow> string \<Rightarrow> string \<Rightarrow> (go_error + string) io" where
  "os_CreateTemp E dir pattern tr =
     (create_temp_out E dir pattern, tr @ [Call_CreateTemp dir pattern])"

definition os_Create :: "os_env \<Rightarrow> string \<Rightarrow> (go_error option) io" where
  "os_Create E path tr = (create_out E path, tr @ [Call_Create path])"

definition file_Write :: "os_env \<Rightarrow> string \<Rightarrow> string \<Rightarrow> (go_error option) io" where
  "file_Write E name b tr = (write_out E name b, tr @ [Call_Write name b])"

definition file_Close :: "string \<Rightarrow> unit io" where
  "file_Close name tr = ((), tr @ [Call_Close name])"

definition os_RemoveAll :: "os_env \<Rightarrow> string \<Rightarrow> (go_error option) io" where
  "os_RemoveAll E path tr = (remove_all_out E path, tr @ [Call_RemoveAll path])"

definition os_Remove :: "os_env \<Rightarrow> string \<Rightarrow> (go_error option) io" where
  "os_Remove E name tr = (remove_out E name, tr @ [Call_Remove name])"

definition cmd_Output :: "os_env \<Rightarrow> Cmd \<Rightarrow> (string \<times> go_error option) io" where
  "cmd_Output E cmd tr = (run_out E cmd, tr @ [Call_Run cmd])"

definition log_Printf :: "string \<Rightarrow> unit io" where
  "log_Printf msg tr = ((), tr @ [Call_Log msg])"

subsection \<open>The form filler of \<open>src/unnamed/part_000\<close>\<close>

text \<open>\<open>exists\<close> (lines 138-147): the pair \<open>(bool, error)\<close> it returns.\<close>

definition exists :: "os_env \<Rightarrow> string \<Rightarrow> (bool \<times> go_error option) io" where
  "exists E path tr =
     (let (err, tr) = os_Stat E path tr in
      case err of
        None \<Rightarrow> ((True, None), tr)
      | Some e \<Rightarrow>
          if is_not_exist E e then ((False, None), tr)
          else ((False, Some e), tr))"

text \<open>\<open>FillFromReader\<close>, the statements after \<open>defer os.Remove(f.Name())\<close>
  (lines 48-64). \<open>f\<close> is the name of the temporary file and \<open>pdfFile\<close> the bytes the
  reader yields.\<close>

definition FillFromReader_rest ::
  "os_env \<Rightarrow> string \<Rightarrow> string \<Rightarrow> string \<Rightarrow> (go_error + string) io" where
  "FillFromReader_rest E fdfFile f pdfFile tr =
     (let (err, tr) = file_Write E f fdfFile tr in
      case err of
        Some e \<Rightarrow> (Inl e, tr)
      | None \<Rightarrow>
          let args = [''-'', ''fill_form'', f, ''output'', ''-''];
              cmd = exec_Command ''pdftk'' args;
              cmd = cmd\<lparr>Stdin := Some pdfFile\<rparr>;
              ((out, err), tr) = cmd_Output E cmd tr
          in case err of
               Some e \<Rightarrow> (Inl (''pdftk error: '' @ e @ ''\<newline>Output: '' @ out), tr)
             | None \<Rightarrow> (Inr out, tr))"

text \<open>\<open>FillFromReader\<close> (lines 36-65). The deferred \<open>os.Remove\<close> runs when the function
  returns and its error is dropped.\<close>

definition FillFromReader ::
  "os_env \<Rightarrow> ('f, 'o) go_lib \<Rightarrow> (string \<times> ('f, 'o) val) list \<Rightarrow> string \<Rightarrow> (go_error + string) io" where
  "FillFromReader E L form pdfFile tr =
     (let (r, tr) = exec_LookPath E ''pdftk'' tr in
      case r of
        Inl _ \<Rightarrow> (Inl ''pdftk utility is not installed!'', tr)
      | Inr _ \<Rightarrow>
          let fdfFile = createFdfFile_part0 L form;
              (r, tr) = os_CreateTemp E [] ''fdf'' tr
          in case r of
               Inl err \<Rightarrow> (Inl err, tr)
             | Inr f \<Rightarrow>
                 let (result, tr) = FillFromReader_rest E fdfFile f pdfFile tr;
                     (_, tr) = os_Remove E f tr
                 in (result, tr))"

text \<open>\<open>Fill\<close> (lines 68-105): the FDF bytes go to the standard input of the command.\<close>

definition Fill_part0 ::
  "os_env \<Rightarrow> ('f, 'o) go_lib \<Rightarrow> (string \<times> ('f, 'o) val) list \<Rightarrow> string \<Rightarrow> (go_error + string) io" where
  "Fill_part0 E L form formPDFFile tr =
     (let (r, tr) = filepath_Abs E formPDFFile tr in
      case r of
        Inl err \<Rightarrow> (Inl (''failed to create the absolute path: '' @ err), tr)
      | Inr formPDFFile \<Rightarrow>
          let ((e, err), tr) = exists E formPDFFile tr in
          case err of
            Some err \<Rightarrow> (Inl (''failed to check if form PDF file exists: '' @ err), tr)
          | None \<Rightarrow>
              if \<not> e then
                (Inl (''form PDF file does not exist: '' @ [CHR 0x27] @ formPDFFile @ [CHR 0x27]), tr)
              else
                let (r, tr) = exec_LookPath E ''pdftk'' tr in
                case r of
                  Inl _ \<Rightarrow> (Inl ''pdftk utility is not installed!'', tr)
                | Inr _ \<Rightarrow>
                    let fdfFile = createFdfFile_part0 L form;
                        args = [formPDFFile, ''fill_form'', ''-'', ''output'', ''-''];
                        cmd = exec_Command ''pdftk'' args;
                        cmd = cmd\<lparr>Stdin := Some fdfFile\<rparr>;
                        ((out, err), tr) = cmd_Output E cmd tr
                    in case err of
                         Some e \<Rightarrow> (Inl (''pdftk error: '' @ e), tr)
                       | None \<Rightarrow> (Inr out, tr))"

subsection \<open>The form filler of \<open>src/fillpdf.go\<close>\<close>

text \<open>\<open>createFdfFile\<close> (lines 97-134). The writes to the buffered writer reach the file
  by \<open>w.Flush()\<close> at the latest, whose error is the one returned; the deferred
  \<open>file.Close()\<close> follows.\<close>

definition createFdfFile ::
  "os_env \<Rightarrow> ('f, 'o) go_lib \<Rightarrow> (string \<times> ('f, 'o) val) list \<Rightarrow> string \<Rightarrow> (go_error option) io" where
  "createFdfFile E L form path tr =
     (let (err, tr) = os_Create E path tr in
      case err of
        Some e \<Rightarrow> (Some e, tr)
      | None \<Rightarrow>
          let w = fdfBytes L form;
              (err, tr) = file_Write E path w tr;
              (_, tr) = file_Close path tr
          in (err, tr))"

text \<open>
  Modelled from the spec: \<open>runCommandInPath\<close>, which \<open>Fill\<close> of \<open>src/fillpdf.go\<close> calls
  and no file under \<open>src/\<close> defines. The spec: ``The invocation's working directory is set
  to the transient directory [...]. Capture the process's standard output in full.'' and
  ``On non-zero exit or execution failure, fail with an external-tool-execution error''.
\<close>

definition runCommandInPath ::
  "os_env \<Rightarrow> string \<Rightarrow> string \<Rightarrow> string list \<Rightarrow> (string \<times> go_error option) io" where
  "runCommandInPath E dir name args tr =
     (let cmd = exec_Command name args;
          cmd = cmd\<lparr>Dir := dir\<rparr>
      in cmd_Output E cmd tr)"

text \<open>\<open>Fill\<close>, the deferred function (lines 66-72).\<close>

definition Fill_deferred :: "os_env \<Rightarrow> string \<Rightarrow> unit io" where
  "Fill_deferred E tmpDir tr =
     (let (errD, tr) = os_RemoveAll E tmpDir tr in
      case errD of
        None \<Rightarrow> ((), tr)
      | Some e \<Rightarrow>
          log_Printf (''fillpdf: failed to remove temporary directory '' @ [CHR 0x27] @ tmpDir
                      @ [CHR 0x27] @ '' again: '' @ e) tr)"

text \<open>\<open>Fill\<close>, the statements after the \<open>defer\<close> (lines 74-94).\<close>

definition Fill_rest ::
  "os_env \<Rightarrow> ('f, 'o) go_lib \<Rightarrow> (string \<times> ('f, 'o) val) list \<Rightarrow> string \<Rightarrow> string \<Rightarrow> (go_error + string) io" where
  "Fill_rest E L form formPDFFile tmpDir tr =
     (let fdfFile = clean_out E (tmpDir @ ''/data.fdf'');
          (err, tr) = createFdfFile E L form fdfFile tr
      in case err of
           Some e \<Rightarrow> (Inl (''failed to create fdf form data file: '' @ e), tr)
         | None \<Rightarrow>
             let args = [formPDFFile, ''fill_form'', fdfFile, ''output'', ''-''];
                 ((out, err), tr) = runCommandInPath E tmpDir ''pdftk'' args tr
             in case err of
                  Some e \<Rightarrow> (Inl (''pdftk error: '' @ e), tr)
                | None \<Rightarrow> (Inr out, tr))"

text \<open>\<open>Fill\<close> (lines 38-95). It calls \<open>exists\<close>, which this file does not define: the
  one of \<open>src/unnamed/part_000\<close> is the function of that name in the package.\<close>

definition Fill ::
  "os_env \<Rightarrow> ('f, 'o) go_lib \<Rightarrow> (string \<times> ('f, 'o) val) list \<Rightarrow> string \<Rightarrow> (go_error + string) io" where
  "Fill E L form formPDFFile tr =
     (let (r, tr) = filepath_Abs E formPDFFile tr in
      case r of
        Inl err \<Rightarrow> (Inl (''failed to create the absolute path: '' @ err), tr)
      | Inr formPDFFile \<Rightarrow>
          let ((e, err), tr) = exists E formPDFFile tr in
          case err of
            Some err \<Rightarrow> (Inl (''failed to check if form PDF file exists: '' @ err), tr)
          | None \<Rightarrow>
              if \<not> e then
                (Inl (''form PDF file does not exists: '' @ [CHR 0x27] @ formPDFFile @ [CHR 0x27]), tr)
              else
                let (r, tr) = exec_LookPath E ''pdftk'' tr in
                case r of
                  Inl _ \<Rightarrow> (Inl ''pdftk utility is not installed!'', tr)
                | Inr _ \<Rightarrow>
                    let (r, tr) = ioutil_TempDir E [] ''fillpdf-'' tr in
                    case r of
                      Inl err \<Rightarrow> (Inl (''failed to create temporary directory: '' @ err), tr)
                    | Inr tmpDir \<Rightarrow>
                        let (result, tr) = Fill_rest E L form formPDFFile tmpDir tr;
                            (_, tr) = Fill_deferred E tmpDir tr
                        in (result, tr))"

subsection \<open>Notions the properties are stated with\<close>

text \<open>The entries the loop appends, one per visited pair, as a list.\<close>

definition fieldEntries :: "('f, 'o) go_lib \<Rightarrow> (string \<times> ('f, 'o) val) list \<Rightarrow> string list" where
  "fieldEntries L kvs = map (\<lambda>(key, v). fieldEntry key (valStr L v)) kvs"

text \<open>Calls that create a transient directory or file, calls that remove one, and calls
  that change the file system at all.\<close>

fun creates_temp :: "call \<Rightarrow> bool" where
  "creates_temp (Call_TempDir _ _) = True"
| "creates_temp (Call_CreateTemp _ _) = True"
| "creates_temp (Call_Create _) = True"
| "creates_temp _ = False"

fun removes_temp :: "call \<Rightarrow> bool" where
  "removes_temp (Call_RemoveAll _) = True"
| "removes_temp (Call_Remove _) = True"
| "removes_temp _ = False"

fun fs_write :: "call \<Rightarrow> bool" where
  "fs_write (Call_TempDir _ _) = True"
| "fs_write (Call_CreateTemp _ _) = True"
| "fs_write (Call_Create _) = True"
| "fs_write (Call_Write _ _) = True"
| "fs_write (Call_RemoveAll _) = True"
| "fs_write (Call_Remove _) = True"
| "fs_write _ = False"

fun is_log :: "call \<Rightarrow> bool" where
  "is_log (Call_Log _) = True"
| "is_log _ = False"

text \<open>Calls that create the transient working area itself.\<close>

fun creates_area :: "call \<Rightarrow> bool" where
  "creates_area (Call_TempDir _ _) = True"
| "creates_area (Call_CreateTemp _ _) = True"
| "creates_area _ = False"

text \<open>The command that all three fill operations build, up to the template, the FDF
  source, the working directory and the standard input.\<close>

definition pdftk_cmd :: "string \<Rightarrow> string \<Rightarrow> string \<Rightarrow> string option \<Rightarrow> Cmd" where
  "pdftk_cmd template fdf dir stdin =
     \<lparr>Path = ''pdftk'', Args = [''pdftk'', template, ''fill_form'', fdf, ''output'', ''-''],
      Dir = dir, Stdin = stdin\<rparr>"

subsection \<open>Instances for the examples\<close>

text \<open>A library instance in which a float64 and a value of any other type are given by
  the text the Go library prints for them.\<close>

definition text_lib :: "(string, string) go_lib" where
  "text_lib = \<lparr>FormatFloat = (\<lambda>s. s), Sprintf_v = (\<lambda>s. s)\<rparr>"

text \<open>A host on which every call succeeds, and hosts that differ from it in one or two
  answers.\<close>

definition host :: os_env where
  "host = \<lparr>abs_out = (\<lambda>p. Inr (''/work/'' @ p)),
           stat_out = (\<lambda>p. None),
           is_not_exist = (\<lambda>e. e = ''no such file or directory''),
           look_path_out = (\<lambda>f. Inr (''/usr/bin/'' @ f)),
           temp_dir_out = (\<lambda>d p. Inr (''/tmp/'' @ p @ ''1'')),
           create_temp_out = (\<lambda>d p. Inr (''/tmp/'' @ p @ ''1'')),
           create_out = (\<lambda>p. None),
           write_out = (\<lambda>p b. None),
           remove_all_out = (\<lambda>p. None),
           remove_out = (\<lambda>p. None),
           run_out = (\<lambda>c. (''%PDF-1.4 filled'', None)),
           clean_out = (\<lambda>p. p)\<rparr>"

definition host_no_template :: os_env where
  "host_no_template = host\<lparr>stat_out := (\<lambda>p. Some ''no such file or directory'')\<rparr>"

definition host_stat_denied :: os_env where
  "host_stat_denied = host\<lparr>stat_out := (\<lambda>p. Some ''permission denied'')\<rparr>"

definition host_no_pdftk :: os_env where
  "host_no_pdftk = host\<lparr>look_path_out := (\<lambda>f. Inl ''executable file not found in $PATH'')\<rparr>"

definition host_no_template_no_pdftk :: os_env where
  "host_no_template_no_pdftk =
     host_no_template\<lparr>look_path_out := (\<lambda>f. Inl ''executable file not found in $PATH'')\<rparr>"

definition host_remove_fails :: os_env where
  "host_remove_fails =
     host\<lparr>remove_all_out := (\<lambda>p. Some ''device or resource busy''),
          remove_out := (\<lambda>p. Some ''device or resource busy'')\<rparr>"

section \<open>Properties of the encoder\<close>

lemma writeFields_eq: "writeFields L kvs w = w @ concat (fieldEntries L kvs)"
  by (induction kvs arbitrary: w) (auto simp: fieldEntries_def)

lemma createFdfFile_part0_eq:
  "createFdfFile_part0 L kvs =
     fdfHeader_part0 @ ''\<newline>'' @ concat (fieldEntries L kvs) @ fdfFooter_part0 @ ''\<newline>''"
  by (simp add: createFdfFile_part0_def Fprintln_def writeFields_eq)

lemma fdfBytes_eq:
  "fdfBytes L kvs =
     fdfHeader @ ''\<newline>'' @ concat (fieldEntries L kvs) @ fdfFooter @ ''\<newline>''"
  by (simp add: fdfBytes_def Fprintln_def writeFields_eq)

lemma fieldEntries_append:
  "fieldEntries L (xs @ ys) = fieldEntries L xs @ fieldEntries L ys"
  by (simp add: fieldEntries_def)

lemma fieldEntries_Cons:
  "fieldEntries L ((key, v) # ys) = fieldEntry key (valStr L v) # fieldEntries L ys"
  by (simp add: fieldEntries_def)

lemma visits_iff: "visits form kvs \<Longrightarrow> (key, v) \<in> set kvs \<longleftrightarrow> form key = Some v"
  by (auto simp: visits_def)


lemma visits_split:
  assumes "visits form kvs" and "form key = Some v"
  shows "\<exists>kvs1 kvs2. kvs = kvs1 @ (key, v) # kvs2"
proof -
  from assms have "(key, v) \<in> set kvs" by (simp add: visits_iff)
  then show ?thesis by (auto simp: in_set_conv_decomp)
qed

text \<open>
  C1. For every Form and every order in which the loop visits it, a field whose value is
  the boolean true is written as \<open><< /T (key) /V (Yes)>>\<close> and one whose value is false
  as \<open><< /T (key) /V (Off)>>\<close>, between the header and the footer, by both encoders.
\<close>

theorem boolean_values_render_Yes_Off:
  assumes "visits form kvs" and "form key = Some (VBool b)"
  shows "\<exists>kvs1 kvs2. kvs = kvs1 @ (key, VBool b) # kvs2 \<and>
           createFdfFile_part0 L kvs =
             fdfHeader_part0 @ ''\<newline>'' @ concat (fieldEntries L kvs1)
             @ ''<< /T ('' @ key @ '') /V ('' @ (if b then ''Yes'' else ''Off'') @ '')>>\<newline>''
             @ concat (fieldEntries L kvs2) @ fdfFooter_part0 @ ''\<newline>'' \<and>
           fdfBytes L kvs =
             fdfHeader @ ''\<newline>'' @ concat (fieldEntries L kvs1)
             @ ''<< /T ('' @ key @ '') /V ('' @ (if b then ''Yes'' else ''Off'') @ '')>>\<newline>''
             @ concat (fieldEntries L kvs2) @ fdfFooter @ ''\<newline>''"
proof -
  from visits_split [OF assms] obtain kvs1 kvs2 where s: "kvs = kvs1 @ (key, VBool b) # kvs2"
    by blast
  have "fieldEntry key (valStr L (VBool b)) =
          ''<< /T ('' @ key @ '') /V ('' @ (if b then ''Yes'' else ''Off'') @ '')>>\<newline>''"
    by (simp add: fieldEntry_def)
  with s show ?thesis
    by (intro exI [of _ kvs1] exI [of _ kvs2])
       (simp add: createFdfFile_part0_eq fdfBytes_eq fieldEntries_append fieldEntries_Cons)
qed

theorem boolean_values_render_Yes_Off_witness:
  "visits [''Subscribed'' \<mapsto> VBool True] [(''Subscribed'', VBool True)] \<and>
   [''Subscribed'' \<mapsto> VBool True] ''Subscribed'' = Some (VBool True) \<and>
   createFdfFile_part0 text_lib [(''Subscribed'', VBool True)] =
     fdfHeader_part0 @ ''\<newline><< /T (Subscribed) /V (Yes)>>\<newline>'' @ fdfFooter_part0 @ ''\<newline>'' \<and>
   fdfBytes text_lib [(''Subscribed'', VBool True)] =
     fdfHeader @ ''\<newline><< /T (Subscribed) /V (Yes)>>\<newline>'' @ fdfFooter @ ''\<newline>''"
proof -
  have v: "visits [''Subscribed'' \<mapsto> VBool True] [(''Subscribed'', VBool True)]"
    by (simp add: visits_def)
  have f: "[''Subscribed'' \<mapsto> VBool True] ''Subscribed'' = Some (VBool True)"
    by simp
  from boolean_values_render_Yes_Off [OF v f, of text_lib]
  obtain kvs1 kvs2
    where s: "[(''Subscribed'', VBool True)] = kvs1 @ (''Subscribed'', VBool True) # kvs2"
      and e: "createFdfFile_part0 text_lib [(''Subscribed'', VBool True)] =
             fdfHeader_part0 @ ''\<newline>'' @ concat (fieldEntries text_lib kvs1)
             @ ''<< /T ('' @ ''Subscribed'' @ '') /V ('' @ (if True then ''Yes'' else ''Off'') @ '')>>\<newline>''
             @ concat (fieldEntries text_lib kvs2) @ fdfFooter_part0 @ ''\<newline>''"
      and e': "fdfBytes text_lib [(''Subscribed'', VBool True)] =
             fdfHeader @ ''\<newline>'' @ concat (fieldEntries text_lib kvs1)
             @ ''<< /T ('' @ ''Subscribed'' @ '') /V ('' @ (if True then ''Yes'' else ''Off'') @ '')>>\<newline>''
             @ concat (fieldEntries text_lib kvs2) @ fdfFooter @ ''\<newline>''"
    by blast
  from s have "kvs1 = [] \<and> kvs2 = []"
    by (simp add: Cons_eq_append_conv)
  with e e' v f show ?thesis
    by (simp add: fieldEntries_def)
qed

lemma visits_distinct: "visits form kvs \<Longrightarrow> distinct kvs"
  by (simp add: visits_def distinct_map)

lemma visits_mset_eq:
  assumes "visits form kvs" and "visits form kvs'"
  shows "mset kvs = mset kvs'"
proof -
  have "set kvs = set kvs'"
    using assms by (auto simp: visits_iff)
  then show ?thesis
    using assms by (simp add: visits_distinct set_eq_iff_mset_eq_distinct [symmetric])
qed

lemma fieldEntries_mset: "mset kvs = mset kvs' \<Longrightarrow> mset (fieldEntries L kvs) = mset (fieldEntries L kvs')"
proof -
  assume "mset kvs = mset kvs'"
  then have "image_mset (\<lambda>(key, v). fieldEntry key (valStr L v)) (mset kvs) =
             image_mset (\<lambda>(key, v). fieldEntry key (valStr L v)) (mset kvs')"
    by (rule arg_cong)
  then show ?thesis
    by (simp add: fieldEntries_def)
qed



lemma mset_concat_cong: "mset xss = mset yss \<Longrightarrow> mset (concat xss) = mset (concat yss)"
proof -
  assume "mset xss = mset yss"
  then have "sum_mset (image_mset mset (mset xss)) = sum_mset (image_mset mset (mset yss))"
    by simp
  then have "sum_list (map mset xss) = sum_list (map mset yss)"
    by (simp flip: sum_mset_sum_list)
  then show ?thesis
    by (simp add: mset_concat)
qed



text \<open>
  C4. The encoders copy a field's name and a string value into the entry as they are,
  whatever characters they hold: nothing is escaped, added or refused. An empty name gives
  \<open><< /T () /V (value)>>\<close>; parentheses and backslashes stay as they are.
\<close>

theorem names_and_values_verbatim:
  "fieldEntry key (valStr L (VString s)) = ''<< /T ('' @ key @ '') /V ('' @ s @ '')>>\<newline>'' \<and>
   createFdfFile_part0 L (kvs1 @ (key, VString s) # kvs2) =
     fdfHeader_part0 @ ''\<newline>'' @ concat (fieldEntries L kvs1)
     @ ''<< /T ('' @ key @ '') /V ('' @ s @ '')>>\<newline>''
     @ concat (fieldEntries L kvs2) @ fdfFooter_part0 @ ''\<newline>'' \<and>
   fdfBytes L (kvs1 @ (key, VString s) # kvs2) =
     fdfHeader @ ''\<newline>'' @ concat (fieldEntries L kvs1)
     @ ''<< /T ('' @ key @ '') /V ('' @ s @ '')>>\<newline>''
     @ concat (fieldEntries L kvs2) @ fdfFooter @ ''\<newline>'' \<and>
   createFdfFile_part0 L [([], VString s)] =
     fdfHeader_part0 @ ''\<newline><< /T () /V ('' @ s @ '')>>\<newline>'' @ fdfFooter_part0 @ ''\<newline>'' \<and>
   createFdfFile_part0 L [(''a(b)'', VString (''c)'' @ [CHR 0x5C] @ ''(d''))] =
     fdfHeader_part0 @ ''\<newline><< /T (a(b)) /V (c)'' @ [CHR 0x5C] @ ''(d)>>\<newline>'' @ fdfFooter_part0 @ ''\<newline>''"
  by (simp add: createFdfFile_part0_eq fdfBytes_eq fieldEntries_append fieldEntries_Cons fieldEntry_def fieldEntries_def)

text \<open>
  C5. Two encodings of one Form differ by the order of the visit at most: the header and
  the footer are the same, the entries are the same as a multiset, and so are the bytes
  of the two outputs.
\<close>

theorem encoding_same_up_to_order:
  assumes "visits form kvs" and "visits form kvs'"
  shows "mset (fieldEntries L kvs) = mset (fieldEntries L kvs') \<and>
         createFdfFile_part0 L kvs =
           fdfHeader_part0 @ ''\<newline>'' @ concat (fieldEntries L kvs) @ fdfFooter_part0 @ ''\<newline>'' \<and>
         createFdfFile_part0 L kvs' =
           fdfHeader_part0 @ ''\<newline>'' @ concat (fieldEntries L kvs') @ fdfFooter_part0 @ ''\<newline>'' \<and>
         fdfBytes L kvs =
           fdfHeader @ ''\<newline>'' @ concat (fieldEntries L kvs) @ fdfFooter @ ''\<newline>'' \<and>
         fdfBytes L kvs' =
           fdfHeader @ ''\<newline>'' @ concat (fieldEntries L kvs') @ fdfFooter @ ''\<newline>'' \<and>
         mset (createFdfFile_part0 L kvs) = mset (createFdfFile_part0 L kvs') \<and>
         mset (fdfBytes L kvs) = mset (fdfBytes L kvs')"
proof -
  have "mset (fieldEntries L kvs) = mset (fieldEntries L kvs')"
    by (rule fieldEntries_mset [OF visits_mset_eq [OF assms]])
  moreover from this have "mset (concat (fieldEntries L kvs)) = mset (concat (fieldEntries L kvs'))"
    by (rule mset_concat_cong)
  ultimately show ?thesis
    by (simp add: createFdfFile_part0_eq fdfBytes_eq)
qed

theorem encoding_same_up_to_order_witness:
  "visits (map_of [(''a'', VBool True), (''b'', VString ''x'')]) [(''a'', VBool True), (''b'', VString ''x'')] \<and>
   visits (map_of [(''a'', VBool True), (''b'', VString ''x'')]) [(''b'', VString ''x''), (''a'', VBool True)] \<and>
   createFdfFile_part0 text_lib [(''a'', VBool True), (''b'', VString ''x'')] =
     fdfHeader_part0 @ ''\<newline><< /T (a) /V (Yes)>>\<newline><< /T (b) /V (x)>>\<newline>'' @ fdfFooter_part0 @ ''\<newline>'' \<and>
   createFdfFile_part0 text_lib [(''b'', VString ''x''), (''a'', VBool True)] =
     fdfHeader_part0 @ ''\<newline><< /T (b) /V (x)>>\<newline><< /T (a) /V (Yes)>>\<newline>'' @ fdfFooter_part0 @ ''\<newline>'' \<and>
   mset (fieldEntries text_lib [(''a'', VBool True), (''b'', VString ''x'')]) =
     mset (fieldEntries text_lib [(''b'', VString ''x''), (''a'', VBool True)])"
proof -
  have v1: "visits (map_of [(''a'', VBool True), (''b'', VString ''x'')])
              [(''a'', VBool True), (''b'', VString ''x'')]"
    by (simp add: visits_def)
  have v2: "visits (map_of [(''a'', VBool True), (''b'', VString ''x'')])
              [(''b'', VString ''x''), (''a'', VBool True)]"
    by (auto simp: visits_def)
  from encoding_same_up_to_order [OF v1 v2, of text_lib] v1 v2
  show ?thesis
    by (simp add: fieldEntries_def fieldEntry_def)
qed

text \<open>
  C10. The only visit of the empty Form is the empty one, and its encoding by
  \<open>createFdfFile\<close> of \<open>src/unnamed/part_000\<close> is the header line followed at once by the
  footer line, with no entry between them. The encoder returns bytes and no error, and for
  no Form are the bytes empty.
\<close>

theorem empty_form:
  "(visits Map.empty kvs \<longleftrightarrow> kvs = []) \<and>
   createFdfFile_part0 L [] = fdfHeader_part0 @ ''\<newline>'' @ fdfFooter_part0 @ ''\<newline>'' \<and>
   fieldEntries L [] = [] \<and>
   createFdfFile_part0 L kvs \<noteq> []"
  by (auto simp: visits_def createFdfFile_part0_eq fieldEntries_def fdfHeader_part0_def)

section \<open>Properties of the form filler\<close>

text \<open>Each operation, as the result and the calls it makes for every answer of the
  operating system.\<close>

lemmas io_defs = filepath_Abs_def os_Stat_def exec_LookPath_def ioutil_TempDir_def
  os_CreateTemp_def os_Create_def file_Write_def file_Close_def os_RemoveAll_def os_Remove_def
  cmd_Output_def log_Printf_def

lemma exists_eq:
  "exists E path tr =
     ((stat_out E path = None,
       case stat_out E path of None \<Rightarrow> None
       | Some e \<Rightarrow> if is_not_exist E e then None else Some e),
      tr @ [Call_Stat path])"
  by (simp add: exists_def os_Stat_def split: option.splits)

lemma createFdfFile_eq:
  "createFdfFile E L form path tr =
     (case create_out E path of
        Some e \<Rightarrow> (Some e, tr @ [Call_Create path])
      | None \<Rightarrow>
          (write_out E path (fdfBytes L form),
           tr @ [Call_Create path, Call_Write path (fdfBytes L form), Call_Close path]))"
  by (simp add: createFdfFile_def io_defs Let_def split: option.splits)

lemma runCommandInPath_eq:
  "runCommandInPath E dir name args tr =
     (run_out E \<lparr>Path = name, Args = name # args, Dir = dir, Stdin = None\<rparr>,
      tr @ [Call_Run \<lparr>Path = name, Args = name # args, Dir = dir, Stdin = None\<rparr>])"
  by (simp add: runCommandInPath_def exec_Command_def cmd_Output_def Let_def)

lemma Fill_deferred_eq:
  "Fill_deferred E tmpDir tr =
     ((), tr @ Call_RemoveAll tmpDir #
       (case remove_all_out E tmpDir of
          None \<Rightarrow> []
        | Some e \<Rightarrow>
            [Call_Log (''fillpdf: failed to remove temporary directory '' @ [CHR 0x27] @ tmpDir
                       @ [CHR 0x27] @ '' again: '' @ e)]))"
  by (simp add: Fill_deferred_def io_defs split: option.splits)

lemma Fill_rest_eq:
  "Fill_rest E L form p tmpDir tr =
     (let fdfFile = clean_out E (tmpDir @ ''/data.fdf'') in
      case create_out E fdfFile of
        Some e \<Rightarrow> (Inl (''failed to create fdf form data file: '' @ e), tr @ [Call_Create fdfFile])
      | None \<Rightarrow>
         (case write_out E fdfFile (fdfBytes L form) of
            Some e \<Rightarrow> (Inl (''failed to create fdf form data file: '' @ e),
                        tr @ [Call_Create fdfFile, Call_Write fdfFile (fdfBytes L form), Call_Close fdfFile])
          | None \<Rightarrow>
              (case run_out E (pdftk_cmd p fdfFile tmpDir None) of
                 (out, Some e) \<Rightarrow> Inl (''pdftk error: '' @ e)
               | (out, None) \<Rightarrow> Inr out,
               tr @ [Call_Create fdfFile, Call_Write fdfFile (fdfBytes L form), Call_Close fdfFile,
                     Call_Run (pdftk_cmd p fdfFile tmpDir None)])))"
  by (simp add: Fill_rest_def createFdfFile_eq runCommandInPath_eq pdftk_cmd_def Let_def
           split: option.splits prod.splits)

lemma Fill_eq:
  "Fill E L form path tr =
     (case abs_out E path of
        Inl err \<Rightarrow> (Inl (''failed to create the absolute path: '' @ err), tr @ [Call_Abs path])
      | Inr p \<Rightarrow>
         (case stat_out E p of
            Some e \<Rightarrow>
              (if is_not_exist E e
               then (Inl (''form PDF file does not exists: '' @ [CHR 0x27] @ p @ [CHR 0x27]),
                     tr @ [Call_Abs path, Call_Stat p])
               else (Inl (''failed to check if form PDF file exists: '' @ e),
                     tr @ [Call_Abs path, Call_Stat p]))
          | None \<Rightarrow>
             (case look_path_out E ''pdftk'' of
                Inl _ \<Rightarrow> (Inl ''pdftk utility is not installed!'',
                           tr @ [Call_Abs path, Call_Stat p, Call_LookPath ''pdftk''])
              | Inr _ \<Rightarrow>
                 (case temp_dir_out E [] ''fillpdf-'' of
                    Inl err \<Rightarrow> (Inl (''failed to create temporary directory: '' @ err),
                                 tr @ [Call_Abs path, Call_Stat p, Call_LookPath ''pdftk'',
                                       Call_TempDir [] ''fillpdf-''])
                  | Inr tmpDir \<Rightarrow>
                      (fst (Fill_rest E L form p tmpDir []),
                       tr @ [Call_Abs path, Call_Stat p, Call_LookPath ''pdftk'',
                             Call_TempDir [] ''fillpdf-'']
                       @ snd (Fill_rest E L form p tmpDir [])
                       @ snd (Fill_deferred E tmpDir []))))))"
  by (simp add: Fill_def exists_eq io_defs Fill_rest_eq Fill_deferred_eq Let_def
           split: sum.splits option.splits prod.splits)

lemma Fill_part0_eq:
  "Fill_part0 E L form path tr =
     (case abs_out E path of
        Inl err \<Rightarrow> (Inl (''failed to create the absolute path: '' @ err), tr @ [Call_Abs path])
      | Inr p \<Rightarrow>
         (case stat_out E p of
            Some e \<Rightarrow>
              (if is_not_exist E e
               then (Inl (''form PDF file does not exist: '' @ [CHR 0x27] @ p @ [CHR 0x27]),
                     tr @ [Call_Abs path, Call_Stat p])
               else (Inl (''failed to check if form PDF file exists: '' @ e),
                     tr @ [Call_Abs path, Call_Stat p]))
          | None \<Rightarrow>
             (case look_path_out E ''pdftk'' of
                Inl _ \<Rightarrow> (Inl ''pdftk utility is not installed!'',
                           tr @ [Call_Abs path, Call_Stat p, Call_LookPath ''pdftk''])
              | Inr _ \<Rightarrow>
                  (case run_out E (pdftk_cmd p ''-'' [] (Some (createFdfFile_part0 L form))) of
                     (out, Some e) \<Rightarrow> Inl (''pdftk error: '' @ e)
                   | (out, None) \<Rightarrow> Inr out,
                   tr @ [Call_Abs path, Call_Stat p, Call_LookPath ''pdftk'',
                         Call_Run (pdftk_cmd p ''-'' [] (Some (createFdfFile_part0 L form)))]))))"
  by (simp add: Fill_part0_def exists_eq io_defs exec_Command_def pdftk_cmd_def Let_def
           split: sum.splits option.splits prod.splits)

lemma FillFromReader_eq:
  "FillFromReader E L form pdfFile tr =
     (case look_path_out E ''pdftk'' of
        Inl _ \<Rightarrow> (Inl ''pdftk utility is not installed!'', tr @ [Call_LookPath ''pdftk''])
      | Inr _ \<Rightarrow>
         (case create_temp_out E [] ''fdf'' of
            Inl err \<Rightarrow> (Inl err, tr @ [Call_LookPath ''pdftk'', Call_CreateTemp [] ''fdf''])
          | Inr f \<Rightarrow>
             (case write_out E f (createFdfFile_part0 L form) of
                Some e \<Rightarrow>
                  (Inl e, tr @ [Call_LookPath ''pdftk'', Call_CreateTemp [] ''fdf'',
                                Call_Write f (createFdfFile_part0 L form), Call_Remove f])
              | None \<Rightarrow>
                  (case run_out E (pdftk_cmd ''-'' f [] (Some pdfFile)) of
                     (out, Some e) \<Rightarrow> Inl (''pdftk error: '' @ e @ ''\<newline>Output: '' @ out)
                   | (out, None) \<Rightarrow> Inr out,
                   tr @ [Call_LookPath ''pdftk'', Call_CreateTemp [] ''fdf'',
                         Call_Write f (createFdfFile_part0 L form),
                         Call_Run (pdftk_cmd ''-'' f [] (Some pdfFile)), Call_Remove f]))))"
  by (simp add: FillFromReader_def FillFromReader_rest_def io_defs exec_Command_def pdftk_cmd_def
           Let_def split: sum.splits option.splits prod.splits)

lemma not_found_result:
  assumes "abs_out E path = Inr p" and "stat_out E p = Some e" and "is_not_exist E e"
  shows "Fill_part0 E L form path tr =
           (Inl (''form PDF file does not exist: '' @ [CHR 0x27] @ p @ [CHR 0x27]),
            tr @ [Call_Abs path, Call_Stat p])"
    and "Fill E L form path tr =
           (Inl (''form PDF file does not exists: '' @ [CHR 0x27] @ p @ [CHR 0x27]),
            tr @ [Call_Abs path, Call_Stat p])"
  using assms by (simp_all add: Fill_part0_eq Fill_eq)

lemma stat_failed_result:
  assumes "abs_out E path = Inr p" and "stat_out E p = Some e" and "\<not> is_not_exist E e"
  shows "Fill_part0 E L form path tr =
           (Inl (''failed to check if form PDF file exists: '' @ e),
            tr @ [Call_Abs path, Call_Stat p])"
    and "Fill E L form path tr =
           (Inl (''failed to check if form PDF file exists: '' @ e),
            tr @ [Call_Abs path, Call_Stat p])"
  using assms by (simp_all add: Fill_part0_eq Fill_eq)

text \<open>
  C6. When the template path resolves to an absolute path that does not exist, \<open>Fill\<close>
  (of either file) returns the error that the form PDF file does not exist, having called
  only \<open>filepath.Abs\<close> and \<open>os.Stat\<close>: nothing is written to the file system. When
  \<open>os.Stat\<close> fails for another reason the error is the one of the failed check, and the
  two errors are never the same.
\<close>

theorem missing_template_is_reported:
  assumes "abs_out E path = Inr p" and "stat_out E p = Some e" and "is_not_exist E e"
  shows "Fill_part0 E L form path tr =
           (Inl (''form PDF file does not exist: '' @ [CHR 0x27] @ p @ [CHR 0x27]),
            tr @ [Call_Abs path, Call_Stat p]) \<and>
         Fill E L form path tr =
           (Inl (''form PDF file does not exists: '' @ [CHR 0x27] @ p @ [CHR 0x27]),
            tr @ [Call_Abs path, Call_Stat p]) \<and>
         filter fs_write (snd (Fill_part0 E L form path tr)) = filter fs_write tr \<and>
         filter fs_write (snd (Fill E L form path tr)) = filter fs_write tr \<and>
         (\<forall>E' path' p' e' tr'.
            abs_out E' path' = Inr p' \<and> stat_out E' p' = Some e' \<and> \<not> is_not_exist E' e' \<longrightarrow>
              fst (Fill_part0 E' L form path' tr') =
                Inl (''failed to check if form PDF file exists: '' @ e') \<and>
              fst (Fill_part0 E' L form path' tr') \<noteq> fst (Fill_part0 E L form path tr) \<and>
              fst (Fill E' L form path' tr') =
                Inl (''failed to check if form PDF file exists: '' @ e') \<and>
              fst (Fill E' L form path' tr') \<noteq> fst (Fill E L form path tr))"
proof -
  note nf = not_found_result [OF assms]
  have "fst (Fill_part0 E' L form path' tr') =
          Inl (''failed to check if form PDF file exists: '' @ e') \<and>
        fst (Fill_part0 E' L form path' tr') \<noteq> fst (Fill_part0 E L form path tr) \<and>
        fst (Fill E' L form path' tr') =
          Inl (''failed to check if form PDF file exists: '' @ e') \<and>
        fst (Fill E' L form path' tr') \<noteq> fst (Fill E L form path tr)"
    if "abs_out E' path' = Inr p'" and "stat_out E' p' = Some e'" and "\<not> is_not_exist E' e'"
    for E' path' p' e' tr'
    by (simp add: nf stat_failed_result [OF that])
  then show ?thesis
    by (simp add: nf)
qed

theorem missing_template_is_reported_witness:
  "abs_out host_no_template ''form.pdf'' = Inr ''/work/form.pdf'' \<and>
   stat_out host_no_template ''/work/form.pdf'' = Some ''no such file or directory'' \<and>
   is_not_exist host_no_template ''no such file or directory'' \<and>
   Fill_part0 host_no_template text_lib [] ''form.pdf'' [] =
     (Inl (''form PDF file does not exist: '' @ [CHR 0x27] @ ''/work/form.pdf'' @ [CHR 0x27]),
      [Call_Abs ''form.pdf'', Call_Stat ''/work/form.pdf'']) \<and>
   abs_out host_stat_denied ''form.pdf'' = Inr ''/work/form.pdf'' \<and>
   stat_out host_stat_denied ''/work/form.pdf'' = Some ''permission denied'' \<and>
   \<not> is_not_exist host_stat_denied ''permission denied'' \<and>
   fst (Fill_part0 host_stat_denied text_lib [] ''form.pdf'' []) =
     Inl ''failed to check if form PDF file exists: permission denied''"
proof -
  have a: "abs_out host_no_template ''form.pdf'' = Inr ''/work/form.pdf''"
    and s: "stat_out host_no_template ''/work/form.pdf'' = Some ''no such file or directory''"
    and n: "is_not_exist host_no_template ''no such file or directory''"
    by (simp_all add: host_no_template_def host_def)
  have a': "abs_out host_stat_denied ''form.pdf'' = Inr ''/work/form.pdf''"
    and s': "stat_out host_stat_denied ''/work/form.pdf'' = Some ''permission denied''"
    and n': "\<not> is_not_exist host_stat_denied ''permission denied''"
    by (simp_all add: host_stat_denied_def host_def)
  from missing_template_is_reported [OF a s n, of text_lib "[]" "[]"] a s n a' s' n'
  show ?thesis by simp
qed

lemma tool_missing_results:
  assumes "look_path_out E ''pdftk'' = Inl e"
  shows "FillFromReader E L form pdfFile tr =
           (Inl ''pdftk utility is not installed!'', tr @ [Call_LookPath ''pdftk''])"
    and "abs_out E path = Inr p \<Longrightarrow> stat_out E p = None \<Longrightarrow>
            Fill E L form path tr =
              (Inl ''pdftk utility is not installed!'',
               tr @ [Call_Abs path, Call_Stat p, Call_LookPath ''pdftk''])"
    and "abs_out E path = Inr p \<Longrightarrow> stat_out E p = None \<Longrightarrow>
            Fill_part0 E L form path tr =
              (Inl ''pdftk utility is not installed!'',
               tr @ [Call_Abs path, Call_Stat p, Call_LookPath ''pdftk''])"
  using assms by (simp_all add: FillFromReader_eq Fill_eq Fill_part0_eq)

lemma tool_missing_no_temp:
  assumes "look_path_out E ''pdftk'' = Inl e"
  shows "filter creates_temp (snd (Fill E L form path tr)) = filter creates_temp tr"
    and "filter creates_temp (snd (Fill_part0 E L form path tr)) = filter creates_temp tr"
    and "filter creates_temp (snd (FillFromReader E L form pdfFile tr)) = filter creates_temp tr"
  using assms
  by (simp_all add: FillFromReader_eq Fill_eq Fill_part0_eq split: sum.splits option.splits)

lemma Fill_lookup_first:
  "filter creates_temp (snd (Fill E L form path [])) = [] \<or>
   Call_LookPath ''pdftk''
     \<in> set (takeWhile (\<lambda>c. \<not> creates_temp c) (snd (Fill E L form path [])))"
  by (simp add: Fill_eq split: sum.splits option.splits)

lemma FillFromReader_lookup_first:
  "filter creates_temp (snd (FillFromReader E L form pdfFile [])) = [] \<or>
   Call_LookPath ''pdftk''
     \<in> set (takeWhile (\<lambda>c. \<not> creates_temp c) (snd (FillFromReader E L form pdfFile [])))"
  by (simp add: FillFromReader_eq split: sum.splits option.splits prod.splits)

text \<open>
  C7, as the code has it. When \<open>pdftk\<close> is not on the search path, \<open>FillFromReader\<close>
  returns the error that the utility is not installed, and so does \<open>Fill\<close> (of either
  file) when the template path resolved and the file exists; an earlier failed check of
  \<open>Fill\<close> is reported instead. In every case no call creates a transient directory or
  file. On any host, a call that creates one comes after the lookup of \<open>pdftk\<close>.
\<close>

theorem tool_missing_before_any_temp:
  assumes "look_path_out E ''pdftk'' = Inl e"
  shows "FillFromReader E L form pdfFile tr =
           (Inl ''pdftk utility is not installed!'', tr @ [Call_LookPath ''pdftk'']) \<and>
         (abs_out E path = Inr p \<and> stat_out E p = None \<longrightarrow>
            Fill E L form path tr =
              (Inl ''pdftk utility is not installed!'',
               tr @ [Call_Abs path, Call_Stat p, Call_LookPath ''pdftk'']) \<and>
            Fill_part0 E L form path tr =
              (Inl ''pdftk utility is not installed!'',
               tr @ [Call_Abs path, Call_Stat p, Call_LookPath ''pdftk''])) \<and>
         filter creates_temp (snd (Fill E L form path tr)) = filter creates_temp tr \<and>
         filter creates_temp (snd (Fill_part0 E L form path tr)) = filter creates_temp tr \<and>
         filter creates_temp (snd (FillFromReader E L form pdfFile tr)) = filter creates_temp tr \<and>
         (\<forall>E'. filter creates_temp (snd (Fill E' L form path [])) = [] \<or>
               Call_LookPath ''pdftk''
                 \<in> set (takeWhile (\<lambda>c. \<not> creates_temp c) (snd (Fill E' L form path [])))) \<and>
         (\<forall>E'. filter creates_temp (snd (FillFromReader E' L form pdfFile [])) = [] \<or>
               Call_LookPath ''pdftk''
                 \<in> set (takeWhile (\<lambda>c. \<not> creates_temp c)
                          (snd (FillFromReader E' L form pdfFile []))))"
proof (intro conjI allI impI)
  show "FillFromReader E L form pdfFile tr =
          (Inl ''pdftk utility is not installed!'', tr @ [Call_LookPath ''pdftk''])"
    by (rule tool_missing_results (1) [OF assms])
next
  assume "abs_out E path = Inr p \<and> stat_out E p = None"
  then show "Fill E L form path tr =
              (Inl ''pdftk utility is not installed!'',
               tr @ [Call_Abs path, Call_Stat p, Call_LookPath ''pdftk''])"
    by (simp add: tool_missing_results (2) [OF assms])
next
  assume "abs_out E path = Inr p \<and> stat_out E p = None"
  then show "Fill_part0 E L form path tr =
              (Inl ''pdftk utility is not installed!'',
               tr @ [Call_Abs path, Call_Stat p, Call_LookPath ''pdftk''])"
    by (simp add: tool_missing_results (3) [OF assms])
qed (simp_all only: tool_missing_no_temp [OF assms] Fill_lookup_first FillFromReader_lookup_first)

theorem tool_missing_before_any_temp_witness:
  "look_path_out host_no_pdftk ''pdftk'' = Inl ''executable file not found in $PATH'' \<and>
   abs_out host_no_pdftk ''form.pdf'' = Inr ''/work/form.pdf'' \<and>
   stat_out host_no_pdftk ''/work/form.pdf'' = None \<and>
   FillFromReader host_no_pdftk text_lib [] ''%PDF-1.4'' [] =
     (Inl ''pdftk utility is not installed!'', [Call_LookPath ''pdftk'']) \<and>
   Fill host_no_pdftk text_lib [] ''form.pdf'' [] =
     (Inl ''pdftk utility is not installed!'',
      [Call_Abs ''form.pdf'', Call_Stat ''/work/form.pdf'', Call_LookPath ''pdftk''])"
proof -
  have l: "look_path_out host_no_pdftk ''pdftk'' = Inl ''executable file not found in $PATH''"
    and a: "abs_out host_no_pdftk ''form.pdf'' = Inr ''/work/form.pdf''"
    and s: "stat_out host_no_pdftk ''/work/form.pdf'' = None"
    by (simp_all add: host_no_pdftk_def host_def)
  from tool_missing_before_any_temp [OF l, of text_lib "[]" "''%PDF-1.4''" "[]" "''form.pdf''"
      "''/work/form.pdf''"] l a s
  show ?thesis by simp
qed

text \<open>The claim as the spec states it fails where the template is missing too: the
  missing template is what \<open>Fill\<close> reports.\<close>

theorem tool_missing_hidden_by_missing_template:
  "look_path_out host_no_template_no_pdftk ''pdftk'' = Inl ''executable file not found in $PATH'' \<and>
   fst (Fill host_no_template_no_pdftk text_lib [] ''form.pdf'' []) =
     Inl (''form PDF file does not exists: '' @ [CHR 0x27] @ ''/work/form.pdf'' @ [CHR 0x27]) \<and>
   fst (Fill host_no_template_no_pdftk text_lib [] ''form.pdf'' [])
     \<noteq> Inl ''pdftk utility is not installed!''"
  by (simp add: Fill_eq host_no_template_no_pdftk_def host_no_template_def host_def)




lemma Fill_one_area:
  "length (filter creates_area (snd (Fill E L form path []))) \<le> 1"
  by (simp add: Fill_eq Fill_rest_eq Fill_deferred_eq Let_def
           split: sum.splits option.splits prod.splits)

lemma Fill_removal:
  "dropWhile (\<lambda>c. \<not> removes_temp c) (snd (Fill E L form path [])) =
     (if Call_TempDir [] ''fillpdf-'' \<in> set (snd (Fill E L form path []))
      then case temp_dir_out E [] ''fillpdf-'' of
             Inl _ \<Rightarrow> []
           | Inr d \<Rightarrow>
               Call_RemoveAll d #
               (case remove_all_out E d of
                  None \<Rightarrow> []
                | Some e \<Rightarrow>
                    [Call_Log (''fillpdf: failed to remove temporary directory '' @ [CHR 0x27] @ d
                               @ [CHR 0x27] @ '' again: '' @ e)])
      else [])"
  by (simp add: Fill_eq Fill_rest_eq Fill_deferred_eq Let_def
           split: sum.splits option.splits prod.splits)

lemma Fill_removal_outcome_ignored:
  "fst (Fill (E\<lparr>remove_all_out := r\<rparr>) L form path tr) = fst (Fill E L form path tr)"
  by (simp add: Fill_eq Fill_rest_eq Let_def
           split: sum.splits option.splits prod.splits)

lemma FillFromReader_one_area:
  "length (filter creates_area (snd (FillFromReader E L form pdfFile []))) \<le> 1"
  by (simp add: FillFromReader_eq split: sum.splits option.splits prod.splits)

lemma FillFromReader_removal:
  "dropWhile (\<lambda>c. \<not> removes_temp c) (snd (FillFromReader E L form pdfFile [])) =
     (if Call_CreateTemp [] ''fdf'' \<in> set (snd (FillFromReader E L form pdfFile []))
      then case create_temp_out E [] ''fdf'' of
             Inl _ \<Rightarrow> []
           | Inr f \<Rightarrow> [Call_Remove f]
      else [])"
  by (simp add: FillFromReader_eq split: sum.splits option.splits prod.splits)

lemma FillFromReader_removal_outcome_ignored:
  "fst (FillFromReader (E\<lparr>remove_out := r\<rparr>) L form pdfFile tr) =
   fst (FillFromReader E L form pdfFile tr)"
  by (simp add: FillFromReader_eq split: sum.splits option.splits prod.splits)

lemma FillFromReader_no_log:
  "filter is_log (snd (FillFromReader E L form pdfFile [])) = []"
  by (simp add: FillFromReader_eq split: sum.splits option.splits prod.splits)

lemma Fill_part0_no_area:
  "filter creates_area (snd (Fill_part0 E L form path [])) = []"
  "filter removes_temp (snd (Fill_part0 E L form path [])) = []"
  by (simp_all add: Fill_part0_eq split: sum.splits option.splits prod.splits)


text \<open>
  C9, as the code has it. A fill operation creates at most one transient working area.
  Where it created one, exactly one call removes it, after every other call of the
  operation, whatever the outcome of those calls; where it created none, no call removes
  anything. The outcome of the removal never changes the result of the operation. \<open>Fill\<close>
  of \<open>src/fillpdf.go\<close> logs a failed removal; \<open>FillFromReader\<close> drops it and logs
  nothing; \<open>Fill\<close> of \<open>src/unnamed/part_000\<close> has no transient working area.
\<close>

theorem transient_area_removed_once:
  "length (filter creates_area (snd (Fill E L form path []))) \<le> 1 \<and>
   dropWhile (\<lambda>c. \<not> removes_temp c) (snd (Fill E L form path [])) =
     (if Call_TempDir [] ''fillpdf-'' \<in> set (snd (Fill E L form path []))
      then case temp_dir_out E [] ''fillpdf-'' of
             Inl _ \<Rightarrow> []
           | Inr d \<Rightarrow>
               Call_RemoveAll d #
               (case remove_all_out E d of
                  None \<Rightarrow> []
                | Some e \<Rightarrow>
                    [Call_Log (''fillpdf: failed to remove temporary directory '' @ [CHR 0x27] @ d
                               @ [CHR 0x27] @ '' again: '' @ e)])
      else []) \<and>
   fst (Fill (E\<lparr>remove_all_out := r\<rparr>) L form path tr) = fst (Fill E L form path tr) \<and>
   length (filter creates_area (snd (FillFromReader E L form pdfFile []))) \<le> 1 \<and>
   dropWhile (\<lambda>c. \<not> removes_temp c) (snd (FillFromReader E L form pdfFile [])) =
     (if Call_CreateTemp [] ''fdf'' \<in> set (snd (FillFromReader E L form pdfFile []))
      then case create_temp_out E [] ''fdf'' of
             Inl _ \<Rightarrow> []
           | Inr f \<Rightarrow> [Call_Remove f]
      else []) \<and>
   fst (FillFromReader (E\<lparr>remove_out := r\<rparr>) L form pdfFile tr) =
     fst (FillFromReader E L form pdfFile tr) \<and>
   filter is_log (snd (FillFromReader E L form pdfFile [])) = [] \<and>
   filter creates_area (snd (Fill_part0 E L form path [])) = [] \<and>
   filter removes_temp (snd (Fill_part0 E L form path [])) = []"
  by (simp only: Fill_one_area Fill_removal Fill_removal_outcome_ignored
        FillFromReader_one_area FillFromReader_removal FillFromReader_removal_outcome_ignored
        FillFromReader_no_log Fill_part0_no_area simp_thms)

text \<open>The claim as the spec states it fails for \<open>FillFromReader\<close>: where the removal of
  the temporary file fails, the failure is not logged.\<close>

theorem FillFromReader_drops_removal_failure:
  "remove_out host_remove_fails ''/tmp/fdf1'' = Some ''device or resource busy'' \<and>
   FillFromReader host_remove_fails text_lib [] ''%PDF-1.4'' [] =
     (Inr ''%PDF-1.4 filled'',
      [Call_LookPath ''pdftk'', Call_CreateTemp [] ''fdf'',
       Call_Write ''/tmp/fdf1'' (createFdfFile_part0 text_lib []),
       Call_Run \<lparr>Path = ''pdftk'',
         Args = [''pdftk'', ''-'', ''fill_form'', ''/tmp/fdf1'', ''output'', ''-''],
         Dir = [], Stdin = Some ''%PDF-1.4''\<rparr>,
       Call_Remove ''/tmp/fdf1'']) \<and>
   filter is_log (snd (FillFromReader host_remove_fails text_lib [] ''%PDF-1.4'' [])) = []"
  by (simp add: FillFromReader_eq pdftk_cmd_def host_remove_fails_def host_def)

end
